theory Spec2Isabelle
  imports Main "HOL-Library.Word"
begin

unbundle bit_operations_syntax

section \<open>Constants of \<^verbatim>\<open>main.go\<close>\<close>

type_synonym u16 = "16 word"
type_synonym byte = "8 word"
type_synonym rune = "32 word"

text \<open>\<^verbatim>\<open>const uint16Max = 65535\<close>: used as the length of \<^verbatim>\<open>memory\<close> and in the
  bound of the loader's loop.\<close>

definition uint16Max :: nat where
  "uint16Max = 65535"

text \<open>Register indices (\<^verbatim>\<open>iota\<close> constants). \<^verbatim>\<open>RCount\<close> is the length of
  \<^verbatim>\<open>registers\<close>.\<close>

abbreviation R0 :: u16 where "R0 \<equiv> 0"
abbreviation R7 :: u16 where "R7 \<equiv> 7"
abbreviation RPc :: u16 where "RPc \<equiv> 8"
abbreviation RCond :: u16 where "RCond \<equiv> 9"

definition RCount :: nat where
  "RCount = 10"

abbreviation MrKbsr :: u16 where "MrKbsr \<equiv> 0xFE00"
abbreviation MrKbdr :: u16 where "MrKbdr \<equiv> 0xFE02"

abbreviation OpBreak :: u16 where "OpBreak \<equiv> 0"
abbreviation OpAdd :: u16 where "OpAdd \<equiv> 1"
abbreviation OpLoad :: u16 where "OpLoad \<equiv> 2"
abbreviation OpStore :: u16 where "OpStore \<equiv> 3"
abbreviation OpJumpRegister :: u16 where "OpJumpRegister \<equiv> 4"
abbreviation OpAnd :: u16 where "OpAnd \<equiv> 5"
abbreviation OpLoadRegister :: u16 where "OpLoadRegister \<equiv> 6"
abbreviation OpStoreRegister :: u16 where "OpStoreRegister \<equiv> 7"
abbreviation OpRti :: u16 where "OpRti \<equiv> 8"
abbreviation OpNot :: u16 where "OpNot \<equiv> 9"
abbreviation OpLoadIndirect :: u16 where "OpLoadIndirect \<equiv> 10"
abbreviation OpStoreIndirect :: u16 where "OpStoreIndirect \<equiv> 11"
abbreviation OpJump :: u16 where "OpJump \<equiv> 12"
abbreviation OpRes :: u16 where "OpRes \<equiv> 13"
abbreviation OpLoadEffectiveAddress :: u16 where "OpLoadEffectiveAddress \<equiv> 14"
abbreviation OpTrap :: u16 where "OpTrap \<equiv> 15"

abbreviation TrapGetC :: u16 where "TrapGetC \<equiv> 0x20"
abbreviation TrapOut :: u16 where "TrapOut \<equiv> 0x21"
abbreviation TrapPutS :: u16 where "TrapPutS \<equiv> 0x22"
abbreviation TrapIn :: u16 where "TrapIn \<equiv> 0x23"
abbreviation TrapPutSP :: u16 where "TrapPutSP \<equiv> 0x24"
abbreviation TrapHalt :: u16 where "TrapHalt \<equiv> 0x25"

abbreviation FlagPositive :: u16 where "FlagPositive \<equiv> 1"
abbreviation FlagZero :: u16 where "FlagZero \<equiv> 2"
abbreviation FlagNegative :: u16 where "FlagNegative \<equiv> 4"

section \<open>Machine state\<close>

text \<open>
  A Go panic is a value: an index outside an array, the \<^verbatim>\<open>panic("not implemented")\<close>
  of RTI and RES, and \<^verbatim>\<open>checkErr\<close> on a failed \<^verbatim>\<open>os.Open\<close> or
  \<^verbatim>\<open>reader.ReadRune\<close>.
\<close>

datatype error = IndexOutOfRange | NotImplemented | OpenFailed | ReadRuneFailed

text \<open>
  The globals \<^verbatim>\<open>memory\<close> and \<^verbatim>\<open>registers\<close> and the local \<^verbatim>\<open>running\<close> of
  \<^verbatim>\<open>main\<close>, together with the outside world the program talks to:
  \<^item> \<open>memory\<close> is \<^verbatim>\<open>[uint16Max]uint16\<close>: the cells with index below \<open>uint16Max\<close>.
    The function is total, so every access goes through a bounds check that panics
    where Go's does;
  \<^item> \<open>registers\<close> is \<^verbatim>\<open>[RCount]uint16\<close>, with the same convention;
  \<^item> \<open>stdin\<close> holds the runes \<^verbatim>\<open>reader.ReadRune\<close> will deliver, and its end is end
    of file;
  \<^item> \<open>getch\<close> holds the values the successive calls of \<^verbatim>\<open>screen.Getch\<close> will return;
  \<^item> \<open>shutdown\<close> tells, for each successive turn of the loop, whether \<^verbatim>\<open>shutdownCh\<close>
    is found closed;
  \<^item> \<open>printed\<close> collects the bytes written by the builtin \<^verbatim>\<open>print\<close>, the
    machine's output. The progress messages of \<^verbatim>\<open>fmt.Printf\<close> and
    \<^verbatim>\<open>fmt.Println\<close> are left out, and so is the setting up of the terminal.
\<close>

record vm =
  memory :: "u16 \<Rightarrow> u16"
  registers :: "u16 \<Rightarrow> u16"
  running :: bool
  stdin :: "rune list"
  getch :: "nat \<Rightarrow> int"
  shutdown :: "nat \<Rightarrow> bool"
  printed :: "byte list"

text \<open>Sequencing of steps that may panic.\<close>

fun seq :: "error + 'a \<Rightarrow> ('a \<Rightarrow> error + 'b) \<Rightarrow> error + 'b" where
  "seq (Inl e) f = Inl e"
| "seq (Inr x) f = f x"

text \<open>The indexed read \<^verbatim>\<open>memory[address]\<close> and the assignment
  \<^verbatim>\<open>memory[address] = value\<close>, with Go's run-time bounds check.\<close>

definition memory_get :: "u16 \<Rightarrow> vm \<Rightarrow> error + (u16 \<times> vm)" where
  "memory_get address s =
     (if unat address < uint16Max then Inr (memory s address, s) else Inl IndexOutOfRange)"

definition memory_set :: "u16 \<Rightarrow> u16 \<Rightarrow> vm \<Rightarrow> error + vm" where
  "memory_set address val s =
     (if unat address < uint16Max then Inr (s\<lparr>memory := (memory s)(address := val)\<rparr>)
      else Inl IndexOutOfRange)"

text \<open>Go's conversion \<^verbatim>\<open>string(x)\<close> of an integer: the UTF-8 encoding of the code
  point \<open>x\<close>, here for 16-bit values (a surrogate becomes U+FFFD).\<close>

definition string_of_rune :: "u16 \<Rightarrow> byte list" where
  "string_of_rune c =
     (if c < 0x80 then [ucast c]
      else if c < 0x800 then [0xC0 OR ucast (drop_bit 6 c), 0x80 OR ucast (c AND 0x3F)]
      else if 0xD800 \<le> c \<and> c \<le> 0xDFFF then [0xEF, 0xBF, 0xBD]
      else [0xE0 OR ucast (drop_bit 12 c), 0x80 OR ucast (drop_bit 6 c AND 0x3F),
            0x80 OR ucast (c AND 0x3F)])"

definition bytes_of :: "string \<Rightarrow> byte list" where
  "bytes_of str = map (\<lambda>c. of_nat (of_char c)) str"

definition print :: "byte list \<Rightarrow> vm \<Rightarrow> vm" where
  "print bs s = s\<lparr>printed := printed s @ bs\<rparr>"

section \<open>Helpers\<close>

text \<open>
  \<^verbatim>\<open>signExtend(num uint16, bitCount uint)\<close>. The untyped constant \<^verbatim>\<open>0xffff\<close> takes
  the type \<^verbatim>\<open>uint16\<close> of the other operand, so the shift drops the bits above bit 15.
  Every call passes 5, 6, 9 or 11 for \<open>bitCount\<close>; at 0, where Go's unsigned
  \<^verbatim>\<open>bitCount - 1\<close> wraps around and the subtraction on \<open>nat\<close> stops at 0, the
  definition is not the function.
\<close>

definition signExtend :: "u16 \<Rightarrow> nat \<Rightarrow> u16" where
  "signExtend num bitCount =
     (if drop_bit (bitCount - 1) num AND 1 = 1 then num OR push_bit bitCount 0xffff
      else num)"

text \<open>
  \<^verbatim>\<open>pcPlusOffset\<close>. As written, the line \<^verbatim>\<open>signedNum |= (0xffff << bitCount)\<close> is
  refused by the Go compiler: in a shift by a variable the untyped constant takes the
  type of its context, \<^verbatim>\<open>int16\<close>, and 65535 overflows it. The function has no
  behaviour of its own, and the definition is a reading of it, not a translation: the
  constant is read as the \<^verbatim>\<open>int16\<close> with the bits of \<^verbatim>\<open>0xffff\<close>, as
  \<^verbatim>\<open>signExtend\<close> has it in \<^verbatim>\<open>uint16\<close>. The conversions between \<^verbatim>\<open>uint16\<close> and
  \<^verbatim>\<open>int16\<close> keep the bit pattern and the addition wraps, so the computation is carried
  out on 16-bit words. Only a taken BR calls the function, and no theorem of this theory
  evaluates one.
\<close>

definition pcPlusOffset :: "u16 \<Rightarrow> u16 \<Rightarrow> nat \<Rightarrow> u16" where
  "pcPlusOffset valInPc num bitCount =
     (let signedNum = num;
          signedNum = (if drop_bit (bitCount - 1) num AND 1 = 1
                       then signedNum OR push_bit bitCount 0xffff else signedNum)
      in valInPc + signedNum)"

text \<open>\<^verbatim>\<open>checkKey\<close>: one call of \<^verbatim>\<open>screen.Getch\<close>, compared with 0.\<close>

definition checkKey :: "vm \<Rightarrow> bool \<times> vm" where
  "checkKey s = (getch s 0 \<noteq> 0, s\<lparr>getch := (\<lambda>n. getch s (Suc n))\<rparr>)"

text \<open>\<^verbatim>\<open>getChar\<close>: the next rune of standard input, cut to a byte and widened; end
  of file panics through \<^verbatim>\<open>checkErr\<close>.\<close>

definition getChar :: "vm \<Rightarrow> error + (u16 \<times> vm)" where
  "getChar s =
     (case stdin s of
        [] \<Rightarrow> Inl ReadRuneFailed
      | c # cs \<Rightarrow> Inr (ucast (ucast c :: byte), s\<lparr>stdin := cs\<rparr>))"

text \<open>\<^verbatim>\<open>memRead\<close>. The \<^verbatim>\<open>else\<close> belongs to the outer \<^verbatim>\<open>if\<close>.\<close>

definition memRead :: "u16 \<Rightarrow> vm \<Rightarrow> error + (u16 \<times> vm)" where
  "memRead address s =
     (if address = MrKbsr then
        (case checkKey s of
           (True, s1) \<Rightarrow>
             seq (memory_set MrKbsr (push_bit 15 1) s1) (\<lambda>s2.
             seq (getChar s2) (\<lambda>(c, s3).
             seq (memory_set MrKbdr c s3) (\<lambda>s4.
             memory_get address s4)))
         | (False, s1) \<Rightarrow> memory_get address s1)
      else
        seq (memory_set MrKbsr 0 s) (\<lambda>s1. memory_get address s1))"

definition memWrite :: "u16 \<Rightarrow> u16 \<Rightarrow> vm \<Rightarrow> error + vm" where
  "memWrite address val s = memory_set address val s"

text \<open>\<^verbatim>\<open>updateFlags(register uint16)\<close>: the argument is an index into
  \<^verbatim>\<open>registers\<close>.\<close>

definition updateFlags :: "u16 \<Rightarrow> vm \<Rightarrow> error + vm" where
  "updateFlags register s =
     (if unat register < RCount then
        Inr (s\<lparr>registers := (registers s)(RCond :=
               (if registers s register = 0 then FlagZero
                else if drop_bit 15 (registers s register) = 1 then FlagNegative
                else FlagPositive))\<rparr>)
      else Inl IndexOutOfRange)"

definition set_register :: "u16 \<Rightarrow> u16 \<Rightarrow> vm \<Rightarrow> vm" where
  "set_register r val s = s\<lparr>registers := (registers s)(r := val)\<rparr>"

definition string_of_byte :: "byte \<Rightarrow> byte list" where
  "string_of_byte b = string_of_rune (ucast b)"

section \<open>Instruction handlers: the cases of the \<^verbatim>\<open>switch opCode\<close>\<close>

definition opBreak :: "u16 \<Rightarrow> vm \<Rightarrow> error + vm" where
  "opBreak instruction s =
     (let isNegative = (drop_bit 11 instruction AND 1 = 1);
          isZero = (drop_bit 10 instruction AND 1 = 1);
          isPositive = (drop_bit 9 instruction AND 1 = 1);
          isSet = ((isNegative \<and> registers s RCond = FlagNegative)
                   \<or> (isZero \<and> registers s RCond = FlagZero)
                   \<or> (isPositive \<and> registers s RCond = FlagPositive))
      in if isSet
         then Inr (set_register RPc
                     (pcPlusOffset (registers s RPc) (instruction AND 0x1fff) 9) s)
         else Inr s)"

definition opAdd :: "u16 \<Rightarrow> vm \<Rightarrow> error + vm" where
  "opAdd instruction s =
     (let destRegister = drop_bit 9 instruction AND 0x7;
          firstOperand = drop_bit 6 instruction AND 0x7;
          immFlag = drop_bit 5 instruction AND 0x1
      in if immFlag = 1 then
           (let imm5 = signExtend (instruction AND 0x1F) 5
            in updateFlags destRegister
                 (set_register destRegister (registers s firstOperand + imm5) s))
         else
           (let secondOperand = instruction AND 0x7
            in updateFlags destRegister
                 (set_register destRegister
                    (registers s firstOperand + registers s secondOperand) s)))"

definition opLoad :: "u16 \<Rightarrow> vm \<Rightarrow> error + vm" where
  "opLoad instruction s =
     (let destRegister = drop_bit 9 instruction AND 0x7;
          pcOffset9 = signExtend (instruction AND 0x1fff) 9
      in seq (memRead (registers s RPc + pcOffset9) s) (\<lambda>(val, s1).
         updateFlags destRegister (set_register destRegister val s1)))"

text \<open>\<^verbatim>\<open>memWrite(registers[RPc+pcOffset9], registers[sourceRegister])\<close>: the sum
  \<^verbatim>\<open>RPc+pcOffset9\<close> is the index into \<^verbatim>\<open>registers\<close>, computed in \<^verbatim>\<open>uint16\<close>.\<close>

definition opStore :: "u16 \<Rightarrow> vm \<Rightarrow> error + vm" where
  "opStore instruction s =
     (let sourceRegister = drop_bit 9 instruction AND 0x7;
          pcOffset9 = signExtend (instruction AND 0x1fff) 9
      in if unat (RPc + pcOffset9) < RCount
         then memWrite (registers s (RPc + pcOffset9)) (registers s sourceRegister) s
         else Inl IndexOutOfRange)"

definition opJumpRegister :: "u16 \<Rightarrow> vm \<Rightarrow> error + vm" where
  "opJumpRegister instruction s =
     (let s1 = set_register R7 (registers s RPc) s;
          bit11Set = (drop_bit 11 instruction AND 0x1 = 1)
      in if bit11Set then
           (let pcOffset11 = signExtend (instruction AND 0x7ff) 11
            in Inr (set_register RPc (registers s1 RPc + pcOffset11) s1))
         else
           (let baseRegister = drop_bit 6 instruction AND 0x7
            in Inr (set_register RPc (registers s1 baseRegister) s1)))"

definition opAnd :: "u16 \<Rightarrow> vm \<Rightarrow> error + vm" where
  "opAnd instruction s =
     (let destRegister = drop_bit 9 instruction AND 0x7;
          firstOperand = drop_bit 6 instruction AND 0x7;
          immFlag = drop_bit 5 instruction AND 0x1
      in if immFlag = 1 then
           (let imm5 = signExtend (instruction AND 0x1F) 5
            in updateFlags destRegister
                 (set_register destRegister (registers s firstOperand AND imm5) s))
         else
           (let secondOperand = instruction AND 0x7
            in updateFlags destRegister
                 (set_register destRegister
                    (registers s firstOperand AND registers s secondOperand) s)))"

definition opLoadRegister :: "u16 \<Rightarrow> vm \<Rightarrow> error + vm" where
  "opLoadRegister instruction s =
     (let destRegister = drop_bit 9 instruction AND 0x7;
          baseRegister = drop_bit 6 instruction AND 0x7;
          pcOffset6 = signExtend (instruction AND 0x3f) 6
      in seq (memRead (registers s baseRegister + pcOffset6) s) (\<lambda>(val, s1).
         updateFlags destRegister (set_register destRegister val s1)))"

definition opStoreRegister :: "u16 \<Rightarrow> vm \<Rightarrow> error + vm" where
  "opStoreRegister instruction s =
     (let sourceRegister = drop_bit 9 instruction AND 0x7;
          baseRegister = drop_bit 6 instruction AND 0x7;
          pcOffset6 = signExtend (instruction AND 0x3f) 6
      in memWrite (registers s baseRegister + pcOffset6) (registers s sourceRegister) s)"

definition opNot :: "u16 \<Rightarrow> vm \<Rightarrow> error + vm" where
  "opNot instruction s =
     (let destRegister = drop_bit 9 instruction AND 0x7;
          sourceRegister = drop_bit 6 instruction AND 0x7
      in updateFlags destRegister
           (set_register destRegister (NOT (registers s sourceRegister)) s))"

definition opLoadIndirect :: "u16 \<Rightarrow> vm \<Rightarrow> error + vm" where
  "opLoadIndirect instruction s =
     (let destRegister = drop_bit 9 instruction AND 0x7;
          pcOffset9 = signExtend (instruction AND 0x1fff) 9
      in seq (memRead (registers s RPc + pcOffset9) s) (\<lambda>(address, s1).
         seq (memRead address s1) (\<lambda>(val, s2).
         updateFlags destRegister (set_register destRegister val s2))))"

definition opStoreIndirect :: "u16 \<Rightarrow> vm \<Rightarrow> error + vm" where
  "opStoreIndirect instruction s =
     (let sourceRegister = drop_bit 9 instruction AND 0x7;
          pcOffset9 = signExtend (instruction AND 0x1fff) 9
      in if unat (RPc + pcOffset9) < RCount
         then seq (memRead (registers s (RPc + pcOffset9)) s) (\<lambda>(address, s1).
              memWrite address (registers s1 sourceRegister) s1)
         else Inl IndexOutOfRange)"

definition opJump :: "u16 \<Rightarrow> vm \<Rightarrow> error + vm" where
  "opJump instruction s =
     (let dest = drop_bit 6 instruction AND 0x7
      in Inr (set_register RPc (registers s dest) s))"

definition opLoadEffectiveAddress :: "u16 \<Rightarrow> vm \<Rightarrow> error + vm" where
  "opLoadEffectiveAddress instruction s =
     (let destRegister = drop_bit 9 instruction AND 0x7;
          pcOffset9 = signExtend (instruction AND 0x1fff) 9
      in updateFlags destRegister
           (set_register destRegister (registers s RPc + pcOffset9) s))"

section \<open>Trap routines\<close>

text \<open>The loop of \<^verbatim>\<open>TrapPutS\<close>. It ends: \<^verbatim>\<open>loc\<close> only grows, and \<^verbatim>\<open>memRead\<close>
  panics at the index \<open>uint16Max\<close>.\<close>

function trapPutSLoop :: "u16 \<Rightarrow> vm \<Rightarrow> error + vm" where
  "trapPutSLoop loc s =
     (case memRead loc s of
        Inl e \<Rightarrow> Inl e
      | Inr (char, s1) \<Rightarrow>
          if char = 0 then Inr s1
          else trapPutSLoop (loc + 1) (print (string_of_byte (ucast char)) s1))"
  by pat_completeness auto
termination
proof (relation "measure (\<lambda>(loc, s). uint16Max - unat loc)")
  show "wf (measure (\<lambda>(loc, s). uint16Max - unat loc))"
    by simp
next
  fix loc :: u16 and s :: vm and x2 :: "u16 \<times> vm" and char :: u16 and s1 :: vm
  assume rd: "memRead loc s = Inr x2" and "(char, s1) = x2"
  have "unat loc < uint16Max"
  proof (cases "loc = MrKbsr")
    case True
    then show ?thesis by (simp add: uint16Max_def)
  next
    case False
    with rd show ?thesis
      by (simp add: memRead_def memory_get_def memory_set_def uint16Max_def
               split: if_splits)
  qed
  moreover from this have "unat (loc + 1) = unat loc + 1"
    by (simp add: uint16Max_def unat_word_ariths)
  ultimately show "((loc + 1, print (string_of_byte (ucast char)) s1), (loc, s))
                   \<in> measure (\<lambda>(loc, s). uint16Max - unat loc)"
    by simp
qed

text \<open>The loop of \<^verbatim>\<open>TrapPutSP\<close>.\<close>

function trapPutSPLoop :: "u16 \<Rightarrow> vm \<Rightarrow> error + vm" where
  "trapPutSPLoop loc s =
     (case memRead loc s of
        Inl e \<Rightarrow> Inl e
      | Inr (read, s1) \<Rightarrow>
          (let first = read AND 0xff
           in if first = 0 then Inr s1
              else
                (let s2 = print (string_of_byte (ucast first)) s1;
                     second = drop_bit 8 read
                 in if second = 0 then Inr s2
                    else trapPutSPLoop (loc + 1)
                           (print (string_of_byte (ucast second)) s2))))"
  by pat_completeness auto
termination
proof (relation "measure (\<lambda>(loc, s). uint16Max - unat loc)")
  show "wf (measure (\<lambda>(loc, s). uint16Max - unat loc))"
    by simp
next
  fix loc :: u16 and s :: vm and x2 :: "u16 \<times> vm" and s' :: vm
  assume rd: "memRead loc s = Inr x2"
  have "unat loc < uint16Max"
  proof (cases "loc = MrKbsr")
    case True
    then show ?thesis by (simp add: uint16Max_def)
  next
    case False
    with rd show ?thesis
      by (simp add: memRead_def memory_get_def memory_set_def uint16Max_def
               split: if_splits)
  qed
  moreover from this have "unat (loc + 1) = unat loc + 1"
    by (simp add: uint16Max_def unat_word_ariths)
  ultimately show "((loc + 1, s'), (loc, s)) \<in> measure (\<lambda>(loc, s). uint16Max - unat loc)"
    by simp
qed

definition opTrap :: "u16 \<Rightarrow> vm \<Rightarrow> error + vm" where
  "opTrap instruction s =
     (let trapCode = instruction AND 0xFF
      in if trapCode = TrapGetC then
           seq (getChar s) (\<lambda>(c, s1). Inr (set_register R0 c s1))
         else if trapCode = TrapOut then
           Inr (print (string_of_rune (registers s R0 AND 0xff)) s)
         else if trapCode = TrapPutS then
           trapPutSLoop (registers s R0) s
         else if trapCode = TrapIn then
           seq (getChar (print (bytes_of ''Enter a character: '') s))
               (\<lambda>(c, s1). Inr (set_register R0 c s1))
         else if trapCode = TrapPutSP then
           trapPutSPLoop (registers s R0) s
         else if trapCode = TrapHalt then
           Inr ((print (bytes_of ''halt'') s)\<lparr>running := False\<rparr>)
         else Inr s)"

section \<open>The fetch-decode-execute loop of \<^verbatim>\<open>main\<close>\<close>

text \<open>The \<^verbatim>\<open>switch opCode\<close>: \<open>opCode\<close> is \<^verbatim>\<open>instruction >> 12\<close>, one of 0 to 15.\<close>

definition execute :: "u16 \<Rightarrow> vm \<Rightarrow> error + vm" where
  "execute instruction s =
     (let opCode = drop_bit 12 instruction
      in if opCode = OpBreak then opBreak instruction s
         else if opCode = OpAdd then opAdd instruction s
         else if opCode = OpLoad then opLoad instruction s
         else if opCode = OpStore then opStore instruction s
         else if opCode = OpJumpRegister then opJumpRegister instruction s
         else if opCode = OpAnd then opAnd instruction s
         else if opCode = OpLoadRegister then opLoadRegister instruction s
         else if opCode = OpStoreRegister then opStoreRegister instruction s
         else if opCode = OpRti then Inl NotImplemented
         else if opCode = OpNot then opNot instruction s
         else if opCode = OpLoadIndirect then opLoadIndirect instruction s
         else if opCode = OpStoreIndirect then opStoreIndirect instruction s
         else if opCode = OpJump then opJump instruction s
         else if opCode = OpRes then Inl NotImplemented
         else if opCode = OpLoadEffectiveAddress then opLoadEffectiveAddress instruction s
         else if opCode = OpTrap then opTrap instruction s
         else Inr s)"

text \<open>The fetch: \<^verbatim>\<open>instruction := memRead(registers[RPc])\<close>, then
  \<^verbatim>\<open>registers[RPc]++\<close>.\<close>

definition fetch :: "vm \<Rightarrow> error + (u16 \<times> vm)" where
  "fetch s =
     seq (memRead (registers s RPc) s) (\<lambda>(instruction, s1).
     Inr (instruction, set_register RPc (registers s1 RPc + 1) s1))"

text \<open>One turn of the loop body after the \<^verbatim>\<open>select\<close>.\<close>

definition step :: "vm \<Rightarrow> error + vm" where
  "step s = seq (fetch s) (\<lambda>(instruction, s1). execute instruction s1)"

text \<open>
  \<^verbatim>\<open>for running { select { case <-shutdownCh: return; default: }; ... }\<close>. The loop
  may run forever, so its result is an option: \<open>None\<close> when it never returns,
  \<open>Some (Inl e)\<close> when it panics, \<open>Some (Inr s)\<close> when it is left in state \<open>s\<close>.
\<close>

partial_function (option) run :: "vm \<Rightarrow> (error + vm) option" where
  "run s =
     (if running s then
        (if shutdown s 0 then Some (Inr s)
         else
           (case step (s\<lparr>shutdown := (\<lambda>n. shutdown s (Suc n))\<rparr>) of
              Inl e \<Rightarrow> Some (Inl e)
            | Inr s' \<Rightarrow> run s'))
      else Some (Inr s))"

section \<open>Image loader\<close>

text \<open>
  The open file is the list \<open>stream\<close> of the bytes not yet read. \<^verbatim>\<open>readUint16\<close> returns a
  value and an error: \<^verbatim>\<open>file.Read\<close> into a fresh two-byte buffer fails with
  \<^verbatim>\<open>io.EOF\<close> only when no byte is left, and a single last byte is read with the
  second byte of the buffer left at zero. The result holds the value, whether the error is
  \<^verbatim>\<open>io.EOF\<close>, and the rest of the file.
\<close>

fun readUint16 :: "byte list \<Rightarrow> u16 \<times> bool \<times> byte list" where
  "readUint16 [] = (0, True, [])"
| "readUint16 [b] = (push_bit 8 (ucast b), False, [])"
| "readUint16 (b1 # b2 # rest) = (push_bit 8 (ucast b1) OR ucast b2, False, rest)"

text \<open>The loop of \<^verbatim>\<open>readImageFile\<close>:
  \<^verbatim>\<open>for i := origin; i < (uint16Max - origin); i++\<close>.\<close>

function readImageLoop :: "u16 \<Rightarrow> u16 \<Rightarrow> byte list \<Rightarrow> vm \<Rightarrow> error + vm" where
  "readImageLoop i origin stream s =
     (if i < of_nat uint16Max - origin then
        (case readUint16 stream of
           (val, eof, stream') \<Rightarrow>
             if eof then Inr s
             else
               (case memory_set i val s of
                  Inl e \<Rightarrow> Inl e
                | Inr s' \<Rightarrow> readImageLoop (i + 1) origin stream' s'))
      else Inr s)"
  by pat_completeness auto
termination
  apply (relation "measure (\<lambda>(i, origin, stream, s). length stream)")
   apply simp
  apply simp
  subgoal for i origin stream s val y eof stream' s'
    by (cases stream rule: readUint16.cases) auto
  done

definition readImageFile :: "byte list \<Rightarrow> vm \<Rightarrow> error + vm" where
  "readImageFile stream s =
     (case readUint16 stream of
        (origin, _, stream') \<Rightarrow> readImageLoop origin origin stream' s)"

text \<open>\<^verbatim>\<open>readImage(path)\<close>: the file system is the argument \<open>img\<close>, \<open>None\<close> when
  \<^verbatim>\<open>os.Open\<close> fails, else the bytes of the file.\<close>

definition readImage :: "byte list option \<Rightarrow> vm \<Rightarrow> error + vm" where
  "readImage img s =
     (case img of
        None \<Rightarrow> Inl OpenFailed
      | Some stream \<Rightarrow> readImageFile stream s)"

section \<open>Program entry\<close>

text \<open>The zeroed globals at program start, with the outside world.\<close>

definition initial :: "rune list \<Rightarrow> (nat \<Rightarrow> int) \<Rightarrow> (nat \<Rightarrow> bool) \<Rightarrow> vm" where
  "initial inp keys sd =
     \<lparr>memory = (\<lambda>_. 0), registers = (\<lambda>_. 0), running = False,
      stdin = inp, getch = keys, shutdown = sd, printed = []\<rparr>"

text \<open>\<^verbatim>\<open>main\<close> up to the loop: load the image, set the program counter to
  \<^verbatim>\<open>PcStart\<close>, set \<^verbatim>\<open>running\<close>.\<close>

definition boot :: "byte list option \<Rightarrow> vm \<Rightarrow> error + vm" where
  "boot img s =
     seq (readImage img s) (\<lambda>s1.
     Inr ((set_register RPc 0x3000 s1)\<lparr>running := True\<rparr>))"

definition main :: "byte list option \<Rightarrow> vm \<Rightarrow> (error + vm) option" where
  "main img s =
     (case boot img s of
        Inl e \<Rightarrow> Some (Inl e)
      | Inr s1 \<Rightarrow> run s1)"

text \<open>The equations of the loops are unfolded by hand.\<close>

declare trapPutSLoop.simps [simp del]
declare trapPutSPLoop.simps [simp del]
declare readImageLoop.simps [simp del]

section \<open>States used to run the machine on concrete inputs\<close>

text \<open>A machine with zeroed memory and registers, no input, no key and no interrupt.\<close>

definition blank :: vm where
  "blank = initial [] (\<lambda>_. 0) (\<lambda>_. False)"

text \<open>The same machine with memory \<open>mem\<close>, registers \<open>regs\<close>, the program counter at
  \<^verbatim>\<open>0x3000\<close> and \<^verbatim>\<open>running\<close> set, as at the top of the loop.\<close>

definition at_pc :: "(u16 \<Rightarrow> u16) \<Rightarrow> (u16 \<Rightarrow> u16) \<Rightarrow> vm" where
  "at_pc mem regs = blank\<lparr>memory := mem, registers := regs(RPc := 0x3000), running := True\<rparr>"

text \<open>A machine whose keyboard status cell holds \<^verbatim>\<open>0x8000\<close>.\<close>

definition kbsr_set :: vm where
  "kbsr_set = blank\<lparr>memory := (\<lambda>_. 0)(MrKbsr := 0x8000)\<rparr>"

text \<open>A machine about to fetch \<^verbatim>\<open>TRAP 0x25\<close> (HALT), and one about to fetch
  \<^verbatim>\<open>TRAP 0xFF\<close>, a vector with no routine, followed by HALT: its keyboard status cell
  holds \<^verbatim>\<open>0x8000\<close>, R0 holds \<^verbatim>\<open>0x1111\<close> and the condition flag is ZERO.\<close>

definition halt_image :: vm where
  "halt_image = at_pc ((\<lambda>_. 0)(0x3000 := 0xF025)) (\<lambda>_. 0)"

definition unknown_trap_program :: vm where
  "unknown_trap_program =
     at_pc ((\<lambda>_. 0)(0x3000 := 0xF0FF, 0x3001 := 0xF025, MrKbsr := 0x8000))
           ((\<lambda>_. 0)(R0 := 0x1111, RCond := FlagZero))"

text \<open>A machine about to fetch \<^verbatim>\<open>TRAP 0x22\<close> (PUTS) with R0 = \<open>a\<close> and the words
  \<^verbatim>\<open>0x41, 0x42, 0x00\<close> stored from \<open>a\<close> on.\<close>

definition puts_image :: "u16 \<Rightarrow> vm" where
  "puts_image a =
     at_pc ((\<lambda>_. 0)(0x3000 := 0xF022, a := 0x41, a + 1 := 0x42, a + 2 := 0)) ((\<lambda>_. 0)(R0 := a))"

section \<open>Basic facts\<close>

lemma seq_eq_Inr: "seq m f = Inr y \<longleftrightarrow> (\<exists>x. m = Inr x \<and> f x = Inr y)"
  by (cases m) auto

text \<open>A read outside the keyboard status address returns the cell and clears the
  status cell.\<close>

lemma memRead_plain:
  assumes "address \<noteq> MrKbsr" and "unat address < uint16Max"
  shows "memRead address s = Inr (memory s address, s\<lparr>memory := (memory s)(MrKbsr := 0)\<rparr>)"
  using assms by (simp add: memRead_def memory_get_def memory_set_def uint16Max_def)

text \<open>A read of the keyboard status address with no key pending returns the cell as it
  is.\<close>

lemma memRead_kbsr_no_key:
  assumes "getch s 0 = 0"
  shows "memRead MrKbsr s = Inr (memory s MrKbsr, s\<lparr>getch := (\<lambda>n. getch s (Suc n))\<rparr>)"
  using assms by (simp add: memRead_def checkKey_def memory_get_def uint16Max_def)

text \<open>The offset the PC-relative handlers compute, when bit 8 of the instruction is clear:
  bits 12 to 0, unchanged.\<close>

lemma signExtend_bit8_clear:
  assumes "\<not> bit instruction 8"
  shows "signExtend (instruction AND 0x1fff) 9 = instruction AND 0x1fff"
proof -
  have "\<not> bit (drop_bit 8 (instruction AND 0x1fff) AND 1) 0"
    using assms by (simp add: bit_simps)
  then have "drop_bit 8 (instruction AND 0x1fff) AND 1 \<noteq> 1"
    by auto
  then show ?thesis
    by (simp add: signExtend_def)
qed

text \<open>\<^verbatim>\<open>memRead\<close> and the fetch leave the registers (the fetch: but for the
  increment of the program counter), the output and the loop's flag alone.\<close>

lemma memRead_frame:
  assumes "memRead address s = Inr (val, s1)"
  shows "registers s1 = registers s" and "printed s1 = printed s"
    and "running s1 = running s" and "shutdown s1 = shutdown s"
  using assms
  by (auto simp: memRead_def seq_eq_Inr memory_get_def memory_set_def checkKey_def getChar_def
        split: if_splits list.splits bool.splits)

lemma fetch_frame:
  assumes "fetch s = Inr (instruction, s1)"
  shows "registers s1 = (registers s)(RPc := registers s RPc + 1)"
    and "printed s1 = printed s" and "running s1 = running s" and "shutdown s1 = shutdown s"
  using assms
  by (auto simp: fetch_def seq_eq_Inr set_register_def dest: memRead_frame)

text \<open>Below \<^verbatim>\<open>0x80\<close> the string of a byte is the byte.\<close>

lemma string_of_byte_ascii:
  assumes "b < 0x80"
  shows "string_of_byte b = [b]"
proof -
  have up: "is_up (ucast :: byte \<Rightarrow> u16)"
    by (simp add: is_up)
  have "(ucast b :: u16) < 0x80"
    using assms by (simp add: word_less_alt uint_up_ucast [OF up])
  moreover have "ucast (ucast b :: u16) = b"
    by (rule ucast_up_ucast_id [OF up])
  ultimately show ?thesis
    by (simp add: string_of_byte_def string_of_rune_def)
qed

lemma drop_bit_15_iff: "drop_bit 15 (r::u16) = 1 \<longleftrightarrow> bit r 15"
proof -
  have eq: "unat (drop_bit 15 r) = unat r div 2 ^ 15"
    unfolding unat_drop_bit_eq by (simp add: drop_bit_eq_div)
  have "unat r < 2 ^ 16"
    using unsigned_less [of r] by simp
  then have lt: "unat r div 2 ^ 15 < 2"
    by simp
  have "bit r 15 \<longleftrightarrow> bit (unat r) 15"
    by (simp add: bit_unsigned_iff)
  also have "\<dots> \<longleftrightarrow> odd (unat r div 2 ^ 15)"
    by (simp add: bit_iff_odd)
  also have "\<dots> \<longleftrightarrow> unat r div 2 ^ 15 = 1"
    using lt by (cases "unat r div 2 ^ 15 = 0") auto
  also have "\<dots> \<longleftrightarrow> drop_bit 15 r = 1"
    using eq by (simp add: word_unat_eq_iff)
  finally show ?thesis by simp
qed

section \<open>Offsets of the PC-relative instructions\<close>

text \<open>
  C1 says that the offset of BR, LD, LDI, ST, STI and LEA is the sign extension of bits
  8 to 0 of the instruction and that bits 11 to 9 do not reach it. The handlers mask with
  \<^verbatim>\<open>0x1fff\<close>, where the sibling fields are masked to their width (\<^verbatim>\<open>0x1F\<close> for 5
  bits, \<^verbatim>\<open>0x3f\<close> for 6, \<^verbatim>\<open>0x7ff\<close> for 11), so bits 12 to 9 stay in a non-negative
  offset. \<^verbatim>\<open>LD R0, #0\<close> (\<^verbatim>\<open>0x2000\<close>) gets the offset 0, \<^verbatim>\<open>LD R1, #0\<close>
  (\<^verbatim>\<open>0x2200\<close>) the offset \<^verbatim>\<open>0x200\<close>: fetched at \<^verbatim>\<open>0x3000\<close>, it loads R1 from
  \<^verbatim>\<open>0x3201\<close> and not from \<^verbatim>\<open>0x3001\<close>. Likewise \<^verbatim>\<open>LEA R1, #0\<close>
  (\<^verbatim>\<open>0xE200\<close>) fetched at \<^verbatim>\<open>0x3000\<close> leaves \<^verbatim>\<open>0x3201\<close> in R1.
\<close>

theorem pc_offset_keeps_register_bits:
  "signExtend (0x2000 AND 0x1fff) 9 = 0
   \<and> signExtend (0x2200 AND 0x1fff) 9 = 0x200
   \<and> map_sum id (\<lambda>s'. registers s' 1)
        (step (at_pc ((\<lambda>_. 0)(0x3000 := 0x2200, 0x3001 := 0xAAAA, 0x3201 := 0xBBBB)) (\<lambda>_. 0)))
       = Inr 0xBBBB
   \<and> map_sum id (\<lambda>s'. registers s' 1) (step (at_pc ((\<lambda>_. 0)(0x3000 := 0xE200)) (\<lambda>_. 0)))
       = Inr 0x3201"
  by (simp add: signExtend_def at_pc_def blank_def initial_def step_def fetch_def execute_def
        opLoad_def opLoadEffectiveAddress_def memRead_def memory_get_def memory_set_def
        uint16Max_def set_register_def updateFlags_def RCount_def)

section \<open>ST and STI\<close>

text \<open>
  C2 says that ST writes the source register to memory at the incremented PC plus the
  offset, and STI at the address read from there. Both handlers index the register file
  with \<^verbatim>\<open>RPc+pcOffset9\<close> (\<^verbatim>\<open>registers[RPc+pcOffset9]\<close>, where LD has
  \<^verbatim>\<open>registers[RPc] + pcOffset9\<close>). \<^verbatim>\<open>ST R0, #0\<close> (\<^verbatim>\<open>0x3000\<close>) and
  \<^verbatim>\<open>STI R0, #0\<close> (\<^verbatim>\<open>0xB000\<close>) panic in every state, the index being outside the
  register file. \<^verbatim>\<open>ST R1, #-1\<close> (\<^verbatim>\<open>0x33FF\<close>) fetched at \<^verbatim>\<open>0x3000\<close> with R1 =
  \<^verbatim>\<open>0x1234\<close> and R7 = \<^verbatim>\<open>0x4000\<close> writes R1 to the address held in R7 and leaves the
  cell \<^verbatim>\<open>0x3000\<close> as it was.
\<close>

theorem store_indexes_register_file:
  "execute 0x3000 s = Inl IndexOutOfRange
   \<and> execute 0xB000 s = Inl IndexOutOfRange
   \<and> map_sum id (\<lambda>s'. (memory s' 0x4000, memory s' 0x3000))
        (step (at_pc ((\<lambda>_. 0)(0x3000 := 0x33FF)) ((\<lambda>_. 0)(1 := 0x1234, 7 := 0x4000))))
       = Inr (0x1234, 0x33FF)"
  by (simp add: signExtend_def at_pc_def blank_def initial_def step_def fetch_def execute_def
        opStore_def opStoreIndirect_def memWrite_def memRead_def memory_get_def memory_set_def
        uint16Max_def set_register_def RCount_def)

section \<open>Memory access\<close>

text \<open>
  C3 says that memory has 65536 words and that \<^verbatim>\<open>memRead\<close> and \<^verbatim>\<open>memWrite\<close> succeed
  at every 16-bit address. The array has \<^verbatim>\<open>uint16Max\<close> = 65535 cells, so the address
  \<^verbatim>\<open>0xFFFF\<close> is out of range: both functions panic there, in every state.
\<close>

theorem memory_last_address_out_of_range:
  "memRead 0xFFFF s = Inl IndexOutOfRange \<and> memWrite 0xFFFF val s = Inl IndexOutOfRange"
  by (simp add: memRead_def memWrite_def memory_get_def memory_set_def uint16Max_def)

text \<open>
  C4 says that \<^verbatim>\<open>memRead(KBSR)\<close> with no pending input clears the status cell and that
  a read of any other address has no side effect. In the code the \<^verbatim>\<open>else\<close> that clears
  the cell belongs to the test of the address: with the cell at \<^verbatim>\<open>0x8000\<close> and no key
  pending, reading KBSR returns \<^verbatim>\<open>0x8000\<close> and leaves the cell, and reading
  \<^verbatim>\<open>0x3000\<close> clears it.
\<close>

theorem memRead_clears_kbsr_on_other_addresses:
  "getch kbsr_set 0 = 0
   \<and> memRead MrKbsr kbsr_set = Inr (0x8000, kbsr_set)
   \<and> memory kbsr_set MrKbsr = 0x8000
   \<and> map_sum id (\<lambda>(val, s'). memory s' MrKbsr) (memRead 0x3000 kbsr_set) = Inr 0"
  by (simp add: kbsr_set_def blank_def initial_def memRead_def checkKey_def memory_get_def
        memory_set_def uint16Max_def)

section \<open>Condition flags\<close>

text \<open>
  C7: for every value \<open>r\<close> of the register passed to \<^verbatim>\<open>updateFlags\<close>, the condition
  register is overwritten with one of the three flags: ZERO exactly when \<open>r\<close> is 0,
  NEGATIVE exactly when \<open>r\<close> is not 0 and has bit 15 set, POSITIVE otherwise. Nothing
  else in the machine changes, and the previous flag plays no part in the new one.
\<close>

theorem updateFlags_exactly_one_flag:
  assumes "unat register < RCount"
  shows "\<exists>flag. updateFlags register s = Inr (set_register RCond flag s)
           \<and> flag \<in> {FlagPositive, FlagZero, FlagNegative}
           \<and> (flag = FlagZero \<longleftrightarrow> registers s register = 0)
           \<and> (flag = FlagNegative \<longleftrightarrow>
                registers s register \<noteq> 0 \<and> bit (registers s register) 15)
           \<and> (flag = FlagPositive \<longleftrightarrow>
                registers s register \<noteq> 0 \<and> \<not> bit (registers s register) 15)"
  using assms by (simp add: updateFlags_def set_register_def drop_bit_15_iff)

theorem updateFlags_exactly_one_flag_witness:
  "unat (3::u16) < RCount
   \<and> updateFlags 3 (set_register 3 0x8000 blank)
       = Inr (set_register RCond FlagNegative (set_register 3 0x8000 blank))"
  using updateFlags_exactly_one_flag [of 3 "set_register 3 0x8000 blank"]
  by (auto simp: RCount_def set_register_def)

section \<open>Image loader\<close>

text \<open>The image of the architecture's usual layout: origin \<^verbatim>\<open>0x3000\<close> and the words
  \<^verbatim>\<open>0x1001, 0x1002\<close> end at \<^verbatim>\<open>0x3000\<close> and \<^verbatim>\<open>0x3001\<close>, and the program counter
  starts at \<^verbatim>\<open>0x3000\<close>.\<close>

lemma readImage_example:
  "map_sum id (\<lambda>s'. (memory s' 0x3000, memory s' 0x3001, registers s' RPc))
     (boot (Some [0x30, 0x00, 0x10, 0x01, 0x10, 0x02]) blank)
   = Inr (0x1001, 0x1002, 0x3000)"
  by (simp add: boot_def readImage_def readImageFile_def readImageLoop.simps uint16Max_def
        memory_set_def set_register_def blank_def initial_def)

text \<open>The loop never panics: its index stays below \<open>uint16Max\<close>.\<close>

lemma readImageLoop_no_error: "\<exists>s'. readImageLoop i origin stream s = Inr s'"
proof (induction i origin stream s rule: readImageLoop.induct)
  case (1 i origin stream s)
  show ?case
  proof (cases "i < of_nat uint16Max - origin")
    case False
    then show ?thesis by (simp add: readImageLoop.simps)
  next
    case True
    obtain val eof stream' where rd: "readUint16 stream = (val, eof, stream')"
      by (cases "readUint16 stream") auto
    have "unat i < unat (of_nat uint16Max - origin :: u16)"
      using True by (simp add: word_less_nat_alt)
    also have "\<dots> \<le> uint16Max"
    proof -
      have "unat (of_nat uint16Max - origin :: u16) < 2 ^ LENGTH(16)"
        by (rule unsigned_less)
      then show ?thesis by (simp add: uint16Max_def)
    qed
    finally have ok: "memory_set i val s = Inr (s\<lparr>memory := (memory s)(i := val)\<rparr>)"
      by (simp add: memory_set_def)
    show ?thesis
    proof (cases eof)
      case True
      with \<open>i < of_nat uint16Max - origin\<close> rd show ?thesis
        by (simp add: readImageLoop.simps)
    next
      case False
      with "1.IH" [OF \<open>i < of_nat uint16Max - origin\<close> rd [symmetric] refl False ok]
      show ?thesis
        using \<open>i < of_nat uint16Max - origin\<close> rd ok
        by (simp add: readImageLoop.simps [of i])
    qed
  qed
qed

text \<open>
  C5 says that for every byte stream the loader stores the words after the origin at
  origin, origin+1, ... until the stream is exhausted. The loop is
  \<^verbatim>\<open>for i := origin; i < (uint16Max - origin); i++\<close>: the number of cells above the
  origin is used as a bound on the index. With an origin of \<^verbatim>\<open>0x8000\<close> or more the
  bound is below the origin and the body never runs: the image \<^verbatim>\<open>80 00 12 34\<close> is
  read without a change to the machine, where the claim has \<^verbatim>\<open>memory[0x8000] = 0x1234\<close>.
\<close>

theorem readImage_high_origin_loads_nothing:
  "readImage (Some [0x80, 0x00, 0x12, 0x34]) s = Inr s"
  by (simp add: readImage_def readImageFile_def readImageLoop.simps uint16Max_def)

text \<open>
  C6 as stated: loading fails when the stream cannot be opened or the origin cannot be
  read, and then no instruction executes. The code drops the error of the first
  \<^verbatim>\<open>readUint16\<close> (\<^verbatim>\<open>origin, _ := readUint16(file)\<close>): an empty image is read
  without error, the machine is started at \<^verbatim>\<open>0x3000\<close> and its first cycle runs.
\<close>

theorem empty_image_is_loaded_and_run:
  "readImage (Some []) blank = Inr blank
   \<and> map_sum id (\<lambda>s'. (running s', registers s' RPc)) (boot (Some []) blank)
       = Inr (True, 0x3000)
   \<and> map_sum id (\<lambda>s'. registers s' RPc) (seq (boot (Some []) blank) step) = Inr 0x3001"
  by (simp add: readImage_def readImageFile_def readImageLoop.simps uint16Max_def boot_def
        blank_def initial_def set_register_def step_def fetch_def memRead_def memory_set_def
        memory_get_def execute_def opBreak_def)

text \<open>
  C6 as amended: loading fails, before any instruction, when the stream cannot be opened,
  and that is its only failure. Every stream that opens is read without error: when the
  origin cannot be read, or only its first byte can, nothing is loaded; a last word cut to
  one byte ends the loading normally (the byte is stored as the high byte of a word).
\<close>

theorem readImage_fails_only_on_open:
  "readImage None s = Inl OpenFailed
   \<and> main None s = Some (Inl OpenFailed)
   \<and> (\<exists>s'. readImage (Some stream) s = Inr s')
   \<and> readImage (Some []) s = Inr s
   \<and> readImage (Some [b]) s = Inr s
   \<and> map_sum id (\<lambda>s'. memory s' 0x3000) (readImage (Some [0x30, 0x00, 0x12]) blank)
       = Inr 0x1200"
proof -
  have "\<exists>s'. readImage (Some stream) s = Inr s'"
    by (cases "readUint16 stream")
       (simp add: readImage_def readImageFile_def readImageLoop_no_error)
  then show ?thesis
    by (simp add: readImage_def readImageFile_def readImageLoop.simps main_def boot_def
          uint16Max_def memory_set_def blank_def initial_def)
qed

section \<open>TRAP\<close>

text \<open>
  C8: when the instruction fetched in a turn of the loop is a TRAP with vector
  \<^verbatim>\<open>0x25\<close>, its handler prints \<^verbatim>\<open>halt\<close> and changes nothing else but
  \<^verbatim>\<open>running\<close>: the registers are those left by the fetch, which are the ones before
  the turn with the program counter incremented, condition flag included. The loop then
  returns in that very state, with no further fetch.
\<close>

theorem trap_halt_stops_the_loop:
  assumes "running s" and "\<not> shutdown s 0"
    and "fetch (s\<lparr>shutdown := (\<lambda>n. shutdown s (Suc n))\<rparr>) = Inr (instruction, s1)"
    and "drop_bit 12 instruction = OpTrap" and "instruction AND 0xFF = TrapHalt"
  shows "\<exists>s2. execute instruction s1 = Inr s2 \<and> run s = Some (Inr s2)
           \<and> \<not> running s2
           \<and> registers s2 = registers s1
           \<and> registers s1 = (registers s)(RPc := registers s RPc + 1)
           \<and> memory s2 = memory s1
           \<and> printed s2 = printed s @ bytes_of ''halt''"
proof -
  let ?s' = "s\<lparr>shutdown := (\<lambda>n. shutdown s (Suc n))\<rparr>"
  let ?s2 = "(print (bytes_of ''halt'') s1)\<lparr>running := False\<rparr>"
  have ex: "execute instruction s1 = Inr ?s2"
    using assms(4,5) by (simp add: execute_def opTrap_def)
  then have "step ?s' = Inr ?s2"
    using assms(3) by (simp add: step_def)
  moreover have "run ?s2 = Some (Inr ?s2)"
    by (subst run.simps) simp
  ultimately have "run s = Some (Inr ?s2)"
    using assms(1,2) by (subst run.simps) simp
  moreover have "registers s1 = (registers s)(RPc := registers s RPc + 1)"
    and "printed s1 = printed s"
    using fetch_frame [OF assms(3)] by simp_all
  ultimately show ?thesis
    using ex by (simp add: print_def)
qed

theorem trap_halt_stops_the_loop_witness:
  "running halt_image \<and> \<not> shutdown halt_image 0
   \<and> fetch (halt_image\<lparr>shutdown := (\<lambda>n. shutdown halt_image (Suc n))\<rparr>)
       = Inr (0xF025, set_register RPc 0x3001
                        (halt_image\<lparr>memory := (memory halt_image)(MrKbsr := 0)\<rparr>))
   \<and> drop_bit 12 (0xF025 :: u16) = OpTrap \<and> (0xF025 :: u16) AND 0xFF = TrapHalt
   \<and> map_option (map_sum id (\<lambda>s'. (running s', registers s' RPc, printed s')))
        (run halt_image)
       = Some (Inr (False, 0x3001, [0x68, 0x61, 0x6C, 0x74]))"
proof -
  let ?s1 = "set_register RPc 0x3001 (halt_image\<lparr>memory := (memory halt_image)(MrKbsr := 0)\<rparr>)"
  have h1: "running halt_image" and h2: "\<not> shutdown halt_image 0"
    by (simp_all add: halt_image_def at_pc_def blank_def initial_def)
  have h3: "fetch (halt_image\<lparr>shutdown := (\<lambda>n. shutdown halt_image (Suc n))\<rparr>)
            = Inr (0xF025, ?s1)"
    by (simp add: halt_image_def at_pc_def blank_def initial_def fetch_def memRead_def
          memory_set_def memory_get_def uint16Max_def set_register_def)
  have h4: "drop_bit 12 (0xF025 :: u16) = OpTrap" and h5: "(0xF025 :: u16) AND 0xFF = TrapHalt"
    by simp_all
  from trap_halt_stops_the_loop [OF h1 h2 h3 h4 h5]
  obtain s2 where "run halt_image = Some (Inr s2)" and "\<not> running s2"
    and "registers s2 = registers ?s1" and "printed s2 = printed halt_image @ bytes_of ''halt''"
    by blast
  then have "map_option (map_sum id (\<lambda>s'. (running s', registers s' RPc, printed s')))
               (run halt_image)
             = Some (Inr (False, 0x3001, [0x68, 0x61, 0x6C, 0x74]))"
    by (simp add: halt_image_def at_pc_def blank_def initial_def set_register_def bytes_of_def)
  with h1 h2 h3 h4 h5 show ?thesis by blast
qed

text \<open>A TRAP whose low 8 bits are none of \<^verbatim>\<open>0x20\<close> to \<^verbatim>\<open>0x25\<close> matches no case
  of the inner \<^verbatim>\<open>switch\<close>: the handler returns the machine as it got it.\<close>

lemma trap_unknown_vector_handler:
  assumes "drop_bit 12 instruction = OpTrap"
    and "instruction AND 0xFF \<notin> {TrapGetC, TrapOut, TrapPutS, TrapIn, TrapPutSP, TrapHalt}"
  shows "execute instruction s = Inr s"
  using assms by (simp add: execute_def opTrap_def)

text \<open>A turn of the loop that fetches such a TRAP is the fetch alone: the registers change
  by the increment of the program counter, nothing is printed, \<^verbatim>\<open>running\<close> stays set,
  and the loop goes on with its next turn, the \<^verbatim>\<open>select\<close> and then the fetch at the
  incremented program counter.\<close>

lemma trap_unknown_vector_turn:
  assumes "drop_bit 12 instruction = OpTrap"
    and "instruction AND 0xFF \<notin> {TrapGetC, TrapOut, TrapPutS, TrapIn, TrapPutSP, TrapHalt}"
    and "running s" and "\<not> shutdown s 0"
    and "fetch (s\<lparr>shutdown := (\<lambda>n. shutdown s (Suc n))\<rparr>) = Inr (instruction, s1)"
  shows "step (s\<lparr>shutdown := (\<lambda>n. shutdown s (Suc n))\<rparr>) = Inr s1"
    and "running s1"
    and "registers s1 = (registers s)(RPc := registers s RPc + 1)"
    and "printed s1 = printed s"
    and "run s =
           (if shutdown s1 0 then Some (Inr s1)
            else case step (s1\<lparr>shutdown := (\<lambda>n. shutdown s1 (Suc n))\<rparr>) of
                   Inl e \<Rightarrow> Some (Inl e)
                 | Inr s' \<Rightarrow> run s')"
proof -
  show st: "step (s\<lparr>shutdown := (\<lambda>n. shutdown s (Suc n))\<rparr>) = Inr s1"
    using assms(5) trap_unknown_vector_handler [OF assms(1,2)] by (simp add: step_def)
  show r1: "running s1"
    using fetch_frame(3) [OF assms(5)] assms(3) by simp
  show "registers s1 = (registers s)(RPc := registers s RPc + 1)"
    using fetch_frame(1) [OF assms(5)] by simp
  show "printed s1 = printed s"
    using fetch_frame(2) [OF assms(5)] by simp
  have "run s = run s1"
    using assms(3,4) st by (subst run.simps) simp
  also have "\<dots> = (if shutdown s1 0 then Some (Inr s1)
            else case step (s1\<lparr>shutdown := (\<lambda>n. shutdown s1 (Suc n))\<rparr>) of
                   Inl e \<Rightarrow> Some (Inl e)
                 | Inr s' \<Rightarrow> run s')"
    using r1 by (subst run.simps) simp
  finally show "run s = (if shutdown s1 0 then Some (Inr s1)
            else case step (s1\<lparr>shutdown := (\<lambda>n. shutdown s1 (Suc n))\<rparr>) of
                   Inl e \<Rightarrow> Some (Inl e)
                 | Inr s' \<Rightarrow> run s')" .
qed

text \<open>
  C10 says that executing a TRAP with a vector outside \<^verbatim>\<open>0x20\<close> to \<^verbatim>\<open>0x25\<close> is a
  silent no-op: no general-purpose register, no memory cell and no condition flag
  changes, the program counter changes by the increment of the fetch only, nothing is
  printed, no error is raised and the loop proceeds to the next fetch. The handler is
  such a no-op, but the fetch of the instruction goes through \<^verbatim>\<open>memRead\<close>, whose
  misplaced \<^verbatim>\<open>else\<close> (see C4) clears the keyboard status cell on a read of any other
  address. Run on \<^verbatim>\<open>TRAP 0xFF\<close> at \<^verbatim>\<open>0x3000\<close> with the status cell at
  \<^verbatim>\<open>0x8000\<close>, the turn leaves R0, the condition flag and the output alone, moves the
  program counter to \<^verbatim>\<open>0x3001\<close> and keeps \<^verbatim>\<open>running\<close>, and it clears the status
  cell. The loop then fetches and executes the HALT at \<^verbatim>\<open>0x3001\<close>.
\<close>

theorem trap_unknown_vector_turn_clears_kbsr:
  "memory unknown_trap_program MrKbsr = 0x8000
   \<and> map_sum id (\<lambda>s'. (memory s' MrKbsr, registers s' RPc, registers s' R0, registers s' RCond,
                        printed s', running s'))
        (step unknown_trap_program)
       = Inr (0, 0x3001, 0x1111, FlagZero, [], True)
   \<and> map_option (map_sum id (\<lambda>s'. (memory s' MrKbsr, registers s' RPc, registers s' R0,
                                    registers s' RCond, printed s', running s')))
        (run unknown_trap_program)
       = Some (Inr (0, 0x3002, 0x1111, FlagZero, [0x68, 0x61, 0x6C, 0x74], False))"
proof -
  let ?s = "unknown_trap_program"
  let ?s1 = "set_register RPc 0x3001 (?s\<lparr>memory := (memory ?s)(MrKbsr := 0)\<rparr>)"
  let ?s2 = "(print (bytes_of ''halt'') (set_register RPc 0x3002 ?s1))\<lparr>running := False\<rparr>"
  have m: "memory ?s MrKbsr = 0x8000"
    by (simp add: unknown_trap_program_def at_pc_def)
  have f1: "fetch ?s = Inr (0xF0FF, ?s1)"
    by (simp add: unknown_trap_program_def at_pc_def blank_def initial_def fetch_def
          memRead_def memory_set_def memory_get_def uint16Max_def set_register_def)
  have e1: "execute 0xF0FF ?s1 = Inr ?s1"
    by (rule trap_unknown_vector_handler) simp_all
  have st1: "step ?s = Inr ?s1"
    using f1 e1 by (simp add: step_def)
  have f2: "fetch ?s1 = Inr (0xF025, set_register RPc 0x3002 ?s1)"
    by (simp add: unknown_trap_program_def at_pc_def blank_def initial_def fetch_def
          memRead_def memory_set_def memory_get_def uint16Max_def set_register_def)
  have e2: "execute 0xF025 (set_register RPc 0x3002 ?s1) = Inr ?s2"
    by (simp add: execute_def opTrap_def)
  have st2: "step ?s1 = Inr ?s2"
    using f2 e2 by (simp add: step_def)
  have id: "?s\<lparr>shutdown := (\<lambda>n. shutdown ?s (Suc n))\<rparr> = ?s"
    "?s1\<lparr>shutdown := (\<lambda>n. shutdown ?s1 (Suc n))\<rparr> = ?s1"
    by (simp_all add: unknown_trap_program_def at_pc_def blank_def initial_def set_register_def)
  have t1: "step (?s\<lparr>shutdown := (\<lambda>n. shutdown ?s (Suc n))\<rparr>) = Inr ?s1"
    using st1 by (simp only: id)
  have t2: "step (?s1\<lparr>shutdown := (\<lambda>n. shutdown ?s1 (Suc n))\<rparr>) = Inr ?s2"
    using st2 by (simp only: id)
  have r: "running ?s" "running ?s1" "\<not> running ?s2"
    by (simp_all add: unknown_trap_program_def at_pc_def set_register_def print_def)
  have nsd: "\<not> shutdown ?s 0" "\<not> shutdown ?s1 0"
    by (simp_all add: unknown_trap_program_def at_pc_def blank_def initial_def set_register_def)
  have "run ?s2 = Some (Inr ?s2)"
    using r(3) by (subst run.simps) simp
  then have "run ?s1 = Some (Inr ?s2)"
    using r(2) nsd(2) t2 by (subst run.simps) simp
  then have "run ?s = Some (Inr ?s2)"
    using r(1) nsd(1) t1 by (subst run.simps) simp
  then have "map_option (map_sum id (\<lambda>s'. (memory s' MrKbsr, registers s' RPc, registers s' R0,
                                    registers s' RCond, printed s', running s')))
        (run ?s)
       = Some (Inr (0, 0x3002, 0x1111, FlagZero, [0x68, 0x61, 0x6C, 0x74], False))"
    by (simp add: unknown_trap_program_def at_pc_def blank_def initial_def set_register_def
          print_def bytes_of_def)
  moreover have "map_sum id (\<lambda>s'. (memory s' MrKbsr, registers s' RPc, registers s' R0,
                        registers s' RCond, printed s', running s'))
        (step ?s)
       = Inr (0, 0x3001, 0x1111, FlagZero, [], True)"
    using st1
    by (simp add: unknown_trap_program_def at_pc_def blank_def initial_def set_register_def)
  ultimately show ?thesis
    using m by simp
qed

section \<open>PUTS\<close>

text \<open>The loop of PUTS on a string that lies inside the memory array and does not touch
  the keyboard status address: it prints the string of the low byte of each word up to the
  first zero word, and the reads leave the status cell cleared.\<close>

lemma trapPutSLoop_emits:
  assumes "unat loc + length ws < uint16Max"
    and "\<forall>i\<le>length ws. loc + of_nat i \<noteq> MrKbsr"
    and "\<forall>i<length ws. memory s (loc + of_nat i) = ws ! i \<and> ws ! i \<noteq> 0"
    and "memory s (loc + of_nat (length ws)) = 0"
  shows "trapPutSLoop loc s =
           Inr (s\<lparr>memory := (memory s)(MrKbsr := 0),
                  printed := printed s @ concat (map (\<lambda>w. string_of_byte (ucast w)) ws)\<rparr>)"
  using assms
proof (induction ws arbitrary: loc s)
  case Nil
  then have "loc \<noteq> MrKbsr" and "unat loc < uint16Max" and "memory s loc = 0"
    by simp_all
  then show ?case
    by (subst trapPutSLoop.simps) (simp add: memRead_plain)
next
  case (Cons w ws)
  have ne: "loc \<noteq> MrKbsr"
    using Cons.prems(2) [rule_format, of 0] by simp
  have lt: "unat loc < uint16Max"
    using Cons.prems(1) by simp
  have w: "memory s loc = w" "w \<noteq> 0"
    using Cons.prems(3) by force+
  let ?s1 = "print (string_of_byte (ucast w)) (s\<lparr>memory := (memory s)(MrKbsr := 0)\<rparr>)"
  have un: "unat (loc + 1) = unat loc + 1"
    using Cons.prems(1) by (simp add: uint16Max_def unat_word_ariths)
  have shift: "loc + 1 + of_nat i = loc + of_nat (Suc i)" for i
    by simp
  have p1: "unat (loc + 1) + length ws < uint16Max"
    using Cons.prems(1) un by simp
  have p2: "\<forall>i\<le>length ws. loc + 1 + of_nat i \<noteq> MrKbsr"
  proof (intro allI impI)
    fix i assume "i \<le> length ws"
    then have "Suc i \<le> length (w # ws)" by simp
    with Cons.prems(2) have "loc + of_nat (Suc i) \<noteq> MrKbsr" by blast
    then show "loc + 1 + of_nat i \<noteq> MrKbsr" unfolding shift .
  qed
  have p3: "\<forall>i<length ws. memory ?s1 (loc + 1 + of_nat i) = ws ! i \<and> ws ! i \<noteq> 0"
  proof (intro allI impI)
    fix i assume i: "i < length ws"
    then have "Suc i < length (w # ws)" by simp
    with Cons.prems(3)
    have "memory s (loc + of_nat (Suc i)) = (w # ws) ! Suc i \<and> (w # ws) ! Suc i \<noteq> 0"
      by blast
    moreover have "loc + 1 + of_nat i \<noteq> MrKbsr"
      using p2 i by simp
    ultimately show "memory ?s1 (loc + 1 + of_nat i) = ws ! i \<and> ws ! i \<noteq> 0"
      by (simp add: print_def shift del: of_nat_Suc)
  qed
  have p4: "memory ?s1 (loc + 1 + of_nat (length ws)) = 0"
  proof -
    have "loc + 1 + of_nat (length ws) \<noteq> MrKbsr"
      using p2 by simp
    moreover have "memory s (loc + of_nat (Suc (length ws))) = 0"
      using Cons.prems(4) by simp
    ultimately show ?thesis
      by (simp add: print_def shift del: of_nat_Suc)
  qed
  have "trapPutSLoop loc s = trapPutSLoop (loc + 1) ?s1"
    using ne lt w by (subst trapPutSLoop.simps) (simp add: memRead_plain)
  also have "\<dots> = Inr (?s1\<lparr>memory := (memory ?s1)(MrKbsr := 0),
                  printed := printed ?s1 @ concat (map (\<lambda>w. string_of_byte (ucast w)) ws)\<rparr>)"
    by (rule Cons.IH [OF p1 p2 p3 p4])
  also have "\<dots> = Inr (s\<lparr>memory := (memory s)(MrKbsr := 0),
                  printed := printed s
                    @ concat (map (\<lambda>w. string_of_byte (ucast w)) (w # ws))\<rparr>)"
    by (simp add: print_def)
  finally show ?case .
qed

lemma concat_string_of_byte_ascii:
  assumes "\<forall>w\<in>set ws. (ucast w :: byte) < 0x80"
  shows "concat (map (\<lambda>w :: u16. string_of_byte (ucast w)) ws) = map ucast ws"
  using assms by (induction ws) (simp_all add: string_of_byte_ascii)

lemma puts_image_fetch:
  "fetch (puts_image 0xFDFF)
   = Inr (0xF022, set_register RPc 0x3001
                    ((puts_image 0xFDFF)\<lparr>memory := (memory (puts_image 0xFDFF))(MrKbsr := 0)\<rparr>))"
  by (simp add: puts_image_def at_pc_def blank_def initial_def fetch_def memRead_def
        memory_set_def memory_get_def uint16Max_def set_register_def)

text \<open>
  C9 as stated: for every starting address \<open>a\<close> in R0, PUTS emits the low bytes of the
  words at \<open>a\<close>, \<open>a+1\<close>, ... up to the first zero word; with \<^verbatim>\<open>0x41, 0x42, 0x00\<close>
  at \<open>a\<close> it emits \<^verbatim>\<open>A\<close> and \<^verbatim>\<open>B\<close>. PUTS reads through \<^verbatim>\<open>memRead\<close>, which
  intercepts the keyboard status address. With \<open>a\<close> = \<^verbatim>\<open>0xFDFF\<close> the second word lies
  at \<^verbatim>\<open>0xFE00\<close>: the turn of the loop that fetches \<^verbatim>\<open>TRAP 0x22\<close> emits \<^verbatim>\<open>A\<close>
  alone.
\<close>

theorem puts_across_kbsr_stops_early:
  "registers (puts_image 0xFDFF) R0 = 0xFDFF
   \<and> memory (puts_image 0xFDFF) 0xFDFF = 0x41
   \<and> memory (puts_image 0xFDFF) 0xFE00 = 0x42
   \<and> memory (puts_image 0xFDFF) 0xFE01 = 0
   \<and> map_sum id printed (step (puts_image 0xFDFF)) = Inr [0x41]"
proof -
  let ?s1 = "set_register RPc 0x3001
               ((puts_image 0xFDFF)\<lparr>memory := (memory (puts_image 0xFDFF))(MrKbsr := 0)\<rparr>)"
  have "execute 0xF022 ?s1 = trapPutSLoop 0xFDFF ?s1"
    by (simp add: execute_def opTrap_def puts_image_def at_pc_def set_register_def)
  moreover have "map_sum id printed (trapPutSLoop 0xFDFF ?s1) = Inr [0x41]"
    by (simp add: puts_image_def at_pc_def blank_def initial_def trapPutSLoop.simps
          memRead_def checkKey_def memory_get_def memory_set_def uint16Max_def set_register_def
          print_def string_of_byte_def string_of_rune_def)
  ultimately have "map_sum id printed (step (puts_image 0xFDFF)) = Inr [0x41]"
    by (simp add: step_def puts_image_fetch)
  then show ?thesis
    by (simp add: puts_image_def at_pc_def)
qed

text \<open>
  C9 as amended: let the words \<open>ws\<close>, none of them zero, lie at the address \<open>a\<close> held in
  R0 and be followed by a zero word, all of it inside the memory array and off the
  keyboard status address. Then PUTS succeeds and emits, for each word of \<open>ws\<close> in order
  and for no other word, the string of its low byte, which is that byte when it is below
  \<^verbatim>\<open>0x80\<close>; it consumes no input and changes no register. The cells after the zero
  word play no part: nothing is assumed of them, and the zero word may be the last cell
  of the array, \<^verbatim>\<open>0xFFFE\<close>, next to an index whose read would panic.
\<close>

theorem puts_emits_string:
  assumes "drop_bit 12 instruction = OpTrap" and "instruction AND 0xFF = TrapPutS"
    and "unat (registers s R0) + length ws < uint16Max"
    and "\<forall>i\<le>length ws. registers s R0 + of_nat i \<noteq> MrKbsr"
    and "\<forall>i<length ws. memory s (registers s R0 + of_nat i) = ws ! i \<and> ws ! i \<noteq> 0"
    and "memory s (registers s R0 + of_nat (length ws)) = 0"
  shows "\<exists>s'. execute instruction s = Inr s'
           \<and> printed s' = printed s @ concat (map (\<lambda>w. string_of_byte (ucast w)) ws)
           \<and> ((\<forall>w\<in>set ws. (ucast w :: byte) < 0x80)
                \<longrightarrow> printed s' = printed s @ map ucast ws)
           \<and> registers s' = registers s \<and> running s' = running s
           \<and> stdin s' = stdin s \<and> getch s' = getch s"
proof -
  have "execute instruction s = trapPutSLoop (registers s R0) s"
    using assms(1,2) by (simp add: execute_def opTrap_def)
  also have "\<dots> = Inr (s\<lparr>memory := (memory s)(MrKbsr := 0),
                  printed := printed s @ concat (map (\<lambda>w. string_of_byte (ucast w)) ws)\<rparr>)"
    by (rule trapPutSLoop_emits [OF assms(3-6)])
  finally show ?thesis
    by (simp add: concat_string_of_byte_ascii)
qed

theorem puts_emits_string_witness:
  "drop_bit 12 (0xF022 :: u16) = OpTrap \<and> (0xF022 :: u16) AND 0xFF = TrapPutS
   \<and> unat (registers (puts_image 0xFFFC) R0) + length [0x41, 0x42 :: u16] < uint16Max
   \<and> memory (puts_image 0xFFFC) (registers (puts_image 0xFFFC) R0 + 2) = 0
   \<and> map_sum id printed (execute 0xF022 (puts_image 0xFFFC)) = Inr [0x41, 0x42]"
proof -
  let ?s = "puts_image 0xFFFC"
  let ?ws = "[0x41, 0x42 :: u16]"
  have r0: "registers ?s R0 = 0xFFFC"
    by (simp add: puts_image_def at_pc_def)
  have h1: "drop_bit 12 (0xF022 :: u16) = OpTrap" and h2: "(0xF022 :: u16) AND 0xFF = TrapPutS"
    by simp_all
  have h3: "unat (registers ?s R0) + length ?ws < uint16Max"
    by (simp add: r0 uint16Max_def)
  have h4: "\<forall>i\<le>length ?ws. registers ?s R0 + of_nat i \<noteq> MrKbsr"
    by (auto simp: r0 le_Suc_eq)
  have h5: "\<forall>i<length ?ws. memory ?s (registers ?s R0 + of_nat i) = ?ws ! i \<and> ?ws ! i \<noteq> 0"
    by (auto simp: r0 less_Suc_eq puts_image_def at_pc_def)
  have h6: "memory ?s (registers ?s R0 + of_nat (length ?ws)) = 0"
    by (simp add: r0 puts_image_def at_pc_def)
  from puts_emits_string [OF h1 h2 h3 h4 h5 h6]
  obtain s' where "execute 0xF022 ?s = Inr s'" and "printed s' = printed ?s @ map ucast ?ws"
    by auto
  then have "map_sum id printed (execute 0xF022 ?s) = Inr [0x41, 0x42]"
    by (simp add: puts_image_def at_pc_def blank_def initial_def)
  with h1 h2 h3 h6 show ?thesis by simp
qed

end
